theory Spec2Isabelle
  imports Main
begin

section \<open>Universal remote shutdown server: the embedding\<close>

text \<open>
  A shallow embedding of \<^verbatim>\<open>scripts/remote-shutdown/universal-shutdown-server.py\<close>.
  The global \<^verbatim>\<open>CONFIG\<close> dictionary is passed as a record, the Flask request as a record
  of what the code reads from it, and everything the code does to the outside
  (log lines, sleeps, \<^verbatim>\<open>os.system\<close> calls, thread starts) is written into the result.
\<close>

subsection \<open>Python values\<close>

text \<open>
  The values a parsed JSON body holds, which are also the values the variable
  \<^verbatim>\<open>api_key\<close> of the decorator ranges over: \<^verbatim>\<open>None\<close> is \<open>JNull\<close>, a \<^verbatim>\<open>str\<close> is
  \<open>JStr\<close>. Numbers are integers here. \<open>JObj\<close> lists the items of a \<^verbatim>\<open>dict\<close>.
\<close>

datatype json =
    JNull
  | JBool bool
  | JNum int
  | JStr string
  | JArr "json list"
  | JObj "(string \<times> json) list"

text \<open>Python truthiness, the test behind \<^verbatim>\<open>if not api_key\<close>.\<close>

fun truthy :: "json \<Rightarrow> bool" where
  "truthy JNull = False"
| "truthy (JBool b) = b"
| "truthy (JNum n) = (n \<noteq> 0)"
| "truthy (JStr s) = (s \<noteq> [])"
| "truthy (JArr xs) = (xs \<noteq> [])"
| "truthy (JObj kvs) = (kvs \<noteq> [])"

text \<open>
  \<^verbatim>\<open>x == s\<close> for a \<^verbatim>\<open>str\<close> \<open>s\<close>: Python compares a \<^verbatim>\<open>str\<close> equal only to a
  \<^verbatim>\<open>str\<close> of the same characters; \<^verbatim>\<open>None\<close>, numbers, booleans, lists and dicts
  are all unequal to it.
\<close>

fun py_eq_str :: "json \<Rightarrow> string \<Rightarrow> bool" where
  "py_eq_str (JStr t) s = (t = s)"
| "py_eq_str JNull s = False"
| "py_eq_str (JBool b) s = False"
| "py_eq_str (JNum n) s = False"
| "py_eq_str (JArr xs) s = False"
| "py_eq_str (JObj kvs) s = False"

text \<open>What \<^verbatim>\<open>headers.get\<close> and \<^verbatim>\<open>args.get\<close> return: a \<^verbatim>\<open>str\<close>, or \<^verbatim>\<open>None\<close>.\<close>

fun of_str_option :: "string option \<Rightarrow> json" where
  "of_str_option None = JNull"
| "of_str_option (Some s) = JStr s"

text \<open>Exceptions, each with the text \<^verbatim>\<open>str(e)\<close> gives.\<close>

datatype exn =
    BadRequest string
  | AttributeError string
  | RuntimeError string
  | OSError string

fun str_exn :: "exn \<Rightarrow> string" where
  "str_exn (BadRequest m) = m"
| "str_exn (AttributeError m) = m"
| "str_exn (RuntimeError m) = m"
| "str_exn (OSError m) = m"

subsection \<open>Configuration, request, effects\<close>

text \<open>
  \<^verbatim>\<open>CONFIG\<close>: the six keys of the literal at the top of the file, with the types
  their defaults and the argparse declarations give them, and under \<open>other_keys\<close> the
  items of every key other than these six that the dictionary holds
  (\<^verbatim>\<open>CONFIG.update\<close> takes whatever keys the configuration file has). A value of the
  six keys that has another type than the key's is outside this model.
\<close>

record config =
  port :: int
  host :: string
  api_key :: string
  device_name :: string
  shutdown_delay :: int
  log_file :: string
  other_keys :: "(string \<times> json) list"

text \<open>
  The request, as far as the code reads it: \<^verbatim>\<open>request.headers.get('X-API-Key')\<close>,
  \<^verbatim>\<open>request.args.get('api_key')\<close>, \<^verbatim>\<open>request.is_json\<close>, the value
  \<^verbatim>\<open>request.get_json()\<close> parses from the body (\<open>None\<close> when the body is not JSON
  text, where Flask raises \<^verbatim>\<open>BadRequest\<close>), and \<^verbatim>\<open>request.remote_addr\<close>.
\<close>

record request =
  header_x_api_key :: "string option"
  query_api_key :: "string option"
  is_json :: bool
  json_body :: "json option"
  remote_addr :: string

datatype level = INFO | WARNING | ERROR

text \<open>
  An effect: a log line (the f-string's text and the values it interpolates), a
  \<^verbatim>\<open>time.sleep\<close> of so many seconds, or an \<^verbatim>\<open>os.system\<close> call.
\<close>

datatype event =
    Log level string "json list"
  | Sleep nat
  | Os_system string

text \<open>The two thread targets.\<close>

datatype target = Shutdown_system | Restart_system

text \<open>
  What the process reads from its surroundings: \<^verbatim>\<open>sys.platform\<close>, what
  \<^verbatim>\<open>os.system\<close> does with a command (raises, or returns the exit status),
  \<^verbatim>\<open>datetime.now().isoformat()\<close>, and whether \<^verbatim>\<open>Thread.start\<close> raises.
\<close>

record env =
  platform :: string
  os_system :: "string \<Rightarrow> exn + int"
  now :: string
  thread_start :: "exn option"

text \<open>
  The server: the countdown threads started and not yet finished, oldest first, and
  the effects so far.
\<close>

record server =
  threads :: "target list"
  trace :: "event list"

text \<open>
  A response: \<^verbatim>\<open>jsonify(body), code\<close>, or an exception that leaves the view
  function, which Flask answers itself.
\<close>

datatype response = Response json nat | Raised exn

fun status_code :: "response \<Rightarrow> nat" where
  "status_code (Response body code) = code"
| "status_code (Raised (BadRequest m)) = 400"
| "status_code (Raised e) = 500"

subsection \<open>\<^verbatim>\<open>require_api_key\<close>\<close>

text \<open>\<^verbatim>\<open>request.get_json()\<close>, called only when \<^verbatim>\<open>request.is_json\<close> holds.\<close>

definition get_json :: "request \<Rightarrow> exn + json" where
  "get_json r =
     (case json_body r of
        None \<Rightarrow> Inl (BadRequest ''Failed to decode JSON object'')
      | Some j \<Rightarrow> Inr j)"

text \<open>
  \<^verbatim>\<open>body.get(k)\<close>: only a \<^verbatim>\<open>dict\<close> has the method; a missing key gives
  \<^verbatim>\<open>None\<close>.
\<close>

fun py_get :: "json \<Rightarrow> string \<Rightarrow> exn + json" where
  "py_get (JObj kvs) k = Inr (case map_of kvs k of None \<Rightarrow> JNull | Some v \<Rightarrow> v)"
| "py_get j k = Inl (AttributeError ''object has no attribute get'')"

text \<open>
  Lines 84 to 92 of the decorator: the value of \<^verbatim>\<open>api_key\<close> when the comparison
  with the secret is reached, or the exception raised on the way.
\<close>

definition presented_api_key :: "request \<Rightarrow> exn + json" where
  "presented_api_key r =
     (let k = of_str_option (header_x_api_key r);
          k = (if \<not> truthy k then of_str_option (query_api_key r) else k)
      in if \<not> truthy k \<and> is_json r then
           (case get_json r of
              Inl e \<Rightarrow> Inl e
            | Inr body \<Rightarrow> py_get body ''api_key'')
         else Inr k)"

text \<open>Line 94, negated: \<^verbatim>\<open>api_key == CONFIG['api_key']\<close>.\<close>

definition authorized :: "config \<Rightarrow> json \<Rightarrow> bool" where
  "authorized cfg k = py_eq_str k (api_key cfg)"

definition unauthorized_body :: json where
  "unauthorized_body =
     JObj [(''error'', JStr ''Unauthorized''), (''message'', JStr ''Invalid API key'')]"

definition log :: "event \<Rightarrow> server \<Rightarrow> server" where
  "log e s = s\<lparr>trace := trace s @ [e]\<rparr>"

text \<open>The decorated function: \<open>f\<close> is the view function it wraps.\<close>

definition require_api_key ::
  "config \<Rightarrow> (request \<Rightarrow> server \<Rightarrow> response \<times> server) \<Rightarrow>
   request \<Rightarrow> server \<Rightarrow> response \<times> server" where
  "require_api_key cfg f r s =
     (case presented_api_key r of
        Inl e \<Rightarrow> (Raised e, s)
      | Inr k \<Rightarrow>
          if \<not> authorized cfg k then
            (Response unauthorized_body 401,
             log (Log WARNING ''Unauthorized access attempt from {request.remote_addr}''
                    [JStr (remote_addr r)]) s)
          else f r s)"

subsection \<open>The platform executor\<close>

text \<open>
  \<^verbatim>\<open>range(start, stop, -1)\<close>: the integers from \<open>start\<close> down to, and
  without, \<open>stop\<close>.
\<close>

function range_down :: "int \<Rightarrow> int \<Rightarrow> int list" where
  "range_down i stop = (if stop < i then i # range_down (i - 1) stop else [])"
  by pat_completeness auto
termination
  by (relation "measure (\<lambda>(i, stop). nat (i - stop))") auto

declare range_down.simps [simp del]

text \<open>
  The countdown loop of both thread targets: for each \<open>i\<close> of
  \<^verbatim>\<open>range(CONFIG['shutdown_delay'], 0, -1)\<close> one log line and one
  \<^verbatim>\<open>time.sleep(1)\<close>. \<open>fmt\<close> is the line's text.
\<close>

definition countdown :: "string \<Rightarrow> int \<Rightarrow> event list" where
  "countdown fmt delay =
     concat (map (\<lambda>i. [Log INFO fmt [JNum i], Sleep 1]) (range_down delay 0))"

text \<open>
  One supported branch of the \<^verbatim>\<open>try\<close> block: the log line, the
  \<^verbatim>\<open>os.system\<close> call whose return value is dropped, \<^verbatim>\<open>return True\<close>; an
  exception of the call is caught, logged with \<open>failed\<close>, and gives \<^verbatim>\<open>False\<close>.
\<close>

definition try_system :: "env \<Rightarrow> string \<Rightarrow> string \<Rightarrow> string \<Rightarrow> event list \<times> bool" where
  "try_system e announce cmd failed =
     (case os_system e cmd of
        Inr exit_status \<Rightarrow> ([Log INFO announce [], Os_system cmd], True)
      | Inl x \<Rightarrow>
          ([Log INFO announce [], Os_system cmd, Log ERROR failed [JStr (str_exn x)]], False))"

definition unsupported :: "env \<Rightarrow> event list \<times> bool" where
  "unsupported e =
     ([Log ERROR ''Unsupported platform: {sys.platform}'' [JStr (platform e)]], False)"

definition shutdown_command :: "env \<Rightarrow> event list \<times> bool" where
  \<open>shutdown_command e =
     (if platform e = ''win32'' then
        try_system e ''Executing Windows shutdown''
          ''shutdown /s /t 1 /c "Remote shutdown via Discord Maid Bot"''
          ''Shutdown command failed: {e}''
      else if platform e = ''linux'' then
        try_system e ''Executing Linux shutdown'' ''sudo shutdown -h now''
          ''Shutdown command failed: {e}''
      else if platform e = ''darwin'' then
        try_system e ''Executing macOS shutdown'' ''sudo shutdown -h now''
          ''Shutdown command failed: {e}''
      else unsupported e)\<close>

definition restart_command :: "env \<Rightarrow> event list \<times> bool" where
  \<open>restart_command e =
     (if platform e = ''win32'' then
        try_system e ''Executing Windows restart''
          ''shutdown /r /t 1 /c "Remote restart via Discord Maid Bot"''
          ''Restart command failed: {e}''
      else if platform e = ''linux'' then
        try_system e ''Executing Linux restart'' ''sudo shutdown -r now''
          ''Restart command failed: {e}''
      else if platform e = ''darwin'' then
        try_system e ''Executing macOS restart'' ''sudo shutdown -r now''
          ''Restart command failed: {e}''
      else unsupported e)\<close>

text \<open>\<^verbatim>\<open>shutdown_system()\<close>: its effects in order, and the value it returns.\<close>

definition shutdown_system :: "config \<Rightarrow> env \<Rightarrow> event list \<times> bool" where
  "shutdown_system cfg e =
     (Log INFO ''Initiating system shutdown on {sys.platform}...'' [JStr (platform e)]
        # countdown ''Shutting down in {i} seconds...'' (shutdown_delay cfg)
        @ Log INFO ''Executing shutdown command...'' []
        # fst (shutdown_command e),
      snd (shutdown_command e))"

text \<open>\<^verbatim>\<open>restart_system()\<close>.\<close>

definition restart_system :: "config \<Rightarrow> env \<Rightarrow> event list \<times> bool" where
  "restart_system cfg e =
     (Log INFO ''Initiating system restart on {sys.platform}...'' [JStr (platform e)]
        # countdown ''Restarting in {i} seconds...'' (shutdown_delay cfg)
        @ Log INFO ''Executing restart command...'' []
        # fst (restart_command e),
      snd (restart_command e))"

fun run_target :: "config \<Rightarrow> env \<Rightarrow> target \<Rightarrow> event list \<times> bool" where
  "run_target cfg e Shutdown_system = shutdown_system cfg e"
| "run_target cfg e Restart_system = restart_system cfg e"

text \<open>
  What can be seen from outside once a view function has started its thread: an effect
  of the countdown thread, or the answer of the request.
\<close>

datatype moment = In_thread event | Answered response

text \<open>
  Two sequences of steps run side by side: the scheduler picks, step by step, the
  first (\<open>True\<close>) or the second (\<open>False\<close>); when its choices are used up the first
  runs on, then the second.
\<close>

fun interleave :: "bool list \<Rightarrow> 'a list \<Rightarrow> 'a list \<Rightarrow> 'a list" where
  "interleave sched [] ys = ys"
| "interleave sched xs [] = xs"
| "interleave [] xs ys = xs @ ys"
| "interleave (True # sched) (x # xs) ys = x # interleave sched xs ys"
| "interleave (False # sched) xs (y # ys) = y # interleave sched xs ys"

text \<open>
  The view functions call \<^verbatim>\<open>start()\<close> first and build the answer afterwards, and
  nothing makes the thread wait for the answer. So from \<^verbatim>\<open>start()\<close> on, the answer of
  the request and the effects of the threads it has started (those of \<open>out\<close> that the
  server \<open>s\<close> did not have before) happen in the order the scheduler picks. Nothing
  reads the value a thread target returns.
\<close>

definition timeline ::
  "bool list \<Rightarrow> config \<Rightarrow> env \<Rightarrow> server \<Rightarrow> response \<times> server \<Rightarrow> moment list" where
  "timeline sched cfg e s out =
     interleave sched [Answered (fst out)]
       (map In_thread
          (concat (map (\<lambda>t. fst (run_target cfg e t))
             (drop (length (threads s)) (threads (snd out))))))"

subsection \<open>The view functions\<close>

text \<open>The body of the 200 answer that \<^verbatim>\<open>shutdown\<close> and \<^verbatim>\<open>restart\<close> build.\<close>

definition initiated_body :: "string \<Rightarrow> config \<Rightarrow> env \<Rightarrow> json" where
  "initiated_body message cfg e =
     JObj [(''status'', JStr ''success''),
           (''message'', JStr message),
           (''device'', JStr (device_name cfg)),
           (''delay'', JNum (shutdown_delay cfg)),
           (''timestamp'', JStr (now e))]"

definition error_body :: "exn \<Rightarrow> json" where
  "error_body x = JObj [(''status'', JStr ''error''), (''message'', JStr (str_exn x))]"

text \<open>
  The body of a view function, shared by the two: log the request, start the thread,
  answer 200; an exception inside the \<^verbatim>\<open>try\<close> (the thread does not start) is
  logged and answered with 500.
\<close>

definition start_and_answer ::
  "target \<Rightarrow> string \<Rightarrow> string \<Rightarrow> string \<Rightarrow> config \<Rightarrow> env \<Rightarrow> request \<Rightarrow> server \<Rightarrow>
   response \<times> server" where
  "start_and_answer t received message failed cfg e r s =
     (let s1 = log (Log INFO received [JStr (remote_addr r)]) s
      in case thread_start e of
           None \<Rightarrow>
             (Response (initiated_body message cfg e) 200, s1\<lparr>threads := threads s1 @ [t]\<rparr>)
         | Some x \<Rightarrow>
             (Response (error_body x) 500, log (Log ERROR failed [JStr (str_exn x)]) s1))"

text \<open>\<^verbatim>\<open>shutdown()\<close> and \<^verbatim>\<open>restart()\<close>, before the decorator.\<close>

definition shutdown :: "config \<Rightarrow> env \<Rightarrow> request \<Rightarrow> server \<Rightarrow> response \<times> server" where
  "shutdown =
     start_and_answer Shutdown_system
       ''Shutdown request received from {request.remote_addr}''
       ''Shutdown initiated''
       ''Error processing shutdown request: {e}''"

definition restart :: "config \<Rightarrow> env \<Rightarrow> request \<Rightarrow> server \<Rightarrow> response \<times> server" where
  "restart =
     start_and_answer Restart_system
       ''Restart request received from {request.remote_addr}''
       ''Restart initiated''
       ''Error processing restart request: {e}''"

text \<open>\<^verbatim>\<open>jsonify\<close> of a configuration dictionary: every key it holds.\<close>

definition config_json :: "config \<Rightarrow> json" where
  "config_json cfg =
     JObj ([(''port'', JNum (port cfg)),
            (''host'', JStr (host cfg)),
            (''api_key'', JStr (api_key cfg)),
            (''device_name'', JStr (device_name cfg)),
            (''shutdown_delay'', JNum (shutdown_delay cfg)),
            (''log_file'', JStr (log_file cfg))]
           @ other_keys cfg)"

text \<open>\<^verbatim>\<open>get_config()\<close>, before the decorator.\<close>

definition get_config :: "config \<Rightarrow> request \<Rightarrow> server \<Rightarrow> response \<times> server" where
  "get_config cfg r s =
     (let safe_config = cfg\<lparr>api_key := ''***hidden***''\<rparr>
      in (Response (config_json safe_config) 200, s))"

text \<open>The three routes that carry \<^verbatim>\<open>@require_api_key\<close>.\<close>

definition route_shutdown :: "config \<Rightarrow> env \<Rightarrow> request \<Rightarrow> server \<Rightarrow> response \<times> server" where
  "route_shutdown cfg e = require_api_key cfg (shutdown cfg e)"

definition route_restart :: "config \<Rightarrow> env \<Rightarrow> request \<Rightarrow> server \<Rightarrow> response \<times> server" where
  "route_restart cfg e = require_api_key cfg (restart cfg e)"


subsection \<open>Startup\<close>

text \<open>The namespace \<^verbatim>\<open>parse_args\<close> returns: an option not given is \<^verbatim>\<open>None\<close>.\<close>

record args =
  args_port :: "int option"
  args_api_key :: "string option"
  args_device_name :: "string option"
  args_delay :: "int option"
  args_config :: string

text \<open>
  The configuration file: absent, unreadable (\<^verbatim>\<open>json.load\<close> raises), or a
  dictionary: those of the six keys it holds, and under \<open>file_other_keys\<close> the items
  of every other key it holds, in the order of the file.
\<close>

record loaded_config =
  file_port :: "int option"
  file_host :: "string option"
  file_api_key :: "string option"
  file_device_name :: "string option"
  file_shutdown_delay :: "int option"
  file_log_file :: "string option"
  file_other_keys :: "(string \<times> json) list"

datatype config_file = Missing | Unreadable exn | Loaded loaded_config

fun or_else :: "'a option \<Rightarrow> 'a \<Rightarrow> 'a" where
  "or_else None d = d"
| "or_else (Some v) d = v"

text \<open>
  \<^verbatim>\<open>d[k] = v\<close> on the items of a dictionary: a key it has keeps its place and takes
  the new value, a new key goes to the end.
\<close>

fun dict_set :: "(string \<times> json) list \<Rightarrow> string \<Rightarrow> json \<Rightarrow> (string \<times> json) list" where
  "dict_set [] k v = [(k, v)]"
| "dict_set ((k', v') # d) k v = (if k' = k then (k, v) # d else (k', v') # dict_set d k v)"

text \<open>\<^verbatim>\<open>d.update(items)\<close>.\<close>

fun dict_update :: "(string \<times> json) list \<Rightarrow> (string \<times> json) list \<Rightarrow> (string \<times> json) list" where
  "dict_update d [] = d"
| "dict_update d ((k, v) # kvs) = dict_update (dict_set d k v) kvs"

text \<open>\<^verbatim>\<open>CONFIG.update(loaded_config)\<close>: every key of the file is taken.\<close>

definition update_config :: "loaded_config \<Rightarrow> config \<Rightarrow> config" where
  "update_config l cfg =
     cfg\<lparr>port := or_else (file_port l) (port cfg),
         host := or_else (file_host l) (host cfg),
         api_key := or_else (file_api_key l) (api_key cfg),
         device_name := or_else (file_device_name l) (device_name cfg),
         shutdown_delay := or_else (file_shutdown_delay l) (shutdown_delay cfg),
         log_file := or_else (file_log_file l) (log_file cfg),
         other_keys := dict_update (other_keys cfg) (file_other_keys l)\<rparr>"

text \<open>\<^verbatim>\<open>load_config\<close>: the configuration afterwards.\<close>

fun load_config :: "config_file \<Rightarrow> config \<Rightarrow> config" where
  "load_config Missing cfg = cfg"
| "load_config (Unreadable x) cfg = cfg"
| "load_config (Loaded l) cfg = update_config l cfg"

text \<open>Truthiness of an optional \<^verbatim>\<open>int\<close> and of an optional \<^verbatim>\<open>str\<close>.\<close>

fun truthy_int :: "int option \<Rightarrow> bool" where
  "truthy_int None = False"
| "truthy_int (Some n) = (n \<noteq> 0)"

fun truthy_str :: "string option \<Rightarrow> bool" where
  "truthy_str None = False"
| "truthy_str (Some s) = (s \<noteq> [])"

text \<open>Lines 263 to 270 of \<^verbatim>\<open>main\<close>: the four overrides, in order.\<close>

definition override :: "args \<Rightarrow> config \<Rightarrow> config" where
  "override a cfg =
     (let cfg = (if truthy_int (args_port a) then cfg\<lparr>port := the (args_port a)\<rparr> else cfg);
          cfg = (if truthy_str (args_api_key a)
                 then cfg\<lparr>api_key := the (args_api_key a)\<rparr> else cfg);
          cfg = (if truthy_str (args_device_name a)
                 then cfg\<lparr>device_name := the (args_device_name a)\<rparr> else cfg);
          cfg = (if truthy_int (args_delay a)
                 then cfg\<lparr>shutdown_delay := the (args_delay a)\<rparr> else cfg)
      in cfg)"

text \<open>
  \<^verbatim>\<open>main\<close> up to \<^verbatim>\<open>app.run\<close>: the configuration the server runs with, which is
  also what \<^verbatim>\<open>save_config\<close> writes back.
\<close>

definition main_config :: "config \<Rightarrow> config_file \<Rightarrow> args \<Rightarrow> config" where
  "main_config cfg file a = override a (load_config file cfg)"

subsection \<open>Concrete values\<close>

text \<open>
  The \<^verbatim>\<open>CONFIG\<close> literal, on a machine that sets neither \<^verbatim>\<open>COMPUTERNAME\<close> nor
  \<^verbatim>\<open>HOSTNAME\<close>.
\<close>

definition CONFIG :: config where
  "CONFIG =
     \<lparr>port = 5000, host = ''0.0.0.0'', api_key = ''change-this-secret-key'',
      device_name = ''Unknown'', shutdown_delay = 5, log_file = ''shutdown-server.log'',
      other_keys = []\<rparr>"

definition idle :: server where
  "idle = \<lparr>threads = [], trace = []\<rparr>"

text \<open>A Linux machine on which every command exits with status 0.\<close>

definition linux_ok :: env where
  "linux_ok =
     \<lparr>platform = ''linux'', os_system = (\<lambda>cmd. Inr 0),
      now = ''2024-01-01T00:00:00'', thread_start = None\<rparr>"

text \<open>
  A Linux machine on which the shell cannot launch the command
  (\<^verbatim>\<open>sudo: command not found\<close>, wait status \<open>127 * 256\<close>).
\<close>

definition linux_no_sudo :: env where
  "linux_no_sudo = linux_ok\<lparr>os_system := (\<lambda>cmd. Inr 32512)\<rparr>"

text \<open>A request that presents \<open>k\<close> in the \<^verbatim>\<open>X-API-Key\<close> header and nothing else.\<close>

definition header_request :: "string \<Rightarrow> request" where
  "header_request k =
     \<lparr>header_x_api_key = Some k, query_api_key = None, is_json = False,
      json_body = None, remote_addr = ''192.0.2.7''\<rparr>"

text \<open>A request with no credential and the JSON body \<open>j\<close>.\<close>

definition json_request :: "json \<Rightarrow> request" where
  "json_request j =
     \<lparr>header_x_api_key = None, query_api_key = None, is_json = True,
      json_body = Some j, remote_addr = ''192.0.2.7''\<rparr>"

text \<open>A machine whose platform is none of the three the code knows.\<close>

definition freebsd :: env where
  "freebsd = linux_ok\<lparr>platform := ''freebsd13''\<rparr>"

text \<open>A Linux machine on which \<^verbatim>\<open>os.system\<close> itself raises.\<close>

definition linux_raising :: env where
  "linux_raising = linux_ok\<lparr>os_system := (\<lambda>cmd. Inl (OSError ''fork failed''))\<rparr>"

text \<open>
  A request with an empty \<^verbatim>\<open>X-API-Key\<close> header, no query parameter, and the JSON
  body \<^verbatim>\<open>{"api_key": k}\<close>.
\<close>

definition body_request :: "string \<Rightarrow> request" where
  "body_request k =
     \<lparr>header_x_api_key = Some [], query_api_key = None, is_json = True,
      json_body = Some (JObj [(''api_key'', JStr k)]), remote_addr = ''192.0.2.7''\<rparr>"



text \<open>A command line that gives no option.\<close>

definition no_args :: args where
  "no_args =
     \<lparr>args_port = None, args_api_key = None, args_device_name = None, args_delay = None,
      args_config = ''shutdown-config.json''\<rparr>"

subsection \<open>The specification's reading of the credential\<close>

text \<open>
  The body field: the \<^verbatim>\<open>api_key\<close> member of the request's JSON object, and no
  value when the request carries no JSON object.
\<close>

definition body_field :: "request \<Rightarrow> json" where
  "body_field r =
     (if is_json r then
        (case json_body r of
           Some (JObj kvs) \<Rightarrow> (case map_of kvs ''api_key'' of None \<Rightarrow> JNull | Some v \<Rightarrow> v)
         | _ \<Rightarrow> JNull)
      else JNull)"

text \<open>The three sources in the order of the specification: header, query, body.\<close>

definition credential_sources :: "request \<Rightarrow> json list" where
  "credential_sources r =
     [of_str_option (header_x_api_key r), of_str_option (query_api_key r), body_field r]"

text \<open>The first non-empty value of a list of sources, if there is one.\<close>

fun first_nonempty :: "json list \<Rightarrow> json option" where
  "first_nonempty [] = None"
| "first_nonempty (v # vs) = (if truthy v then Some v else first_nonempty vs)"

subsection \<open>Reading a trace\<close>

text \<open>
  The countdown lines are the only log lines that interpolate one number: the numbers
  they report, in order.
\<close>

fun tick_values :: "event list \<Rightarrow> int list" where
  "tick_values [] = []"
| "tick_values (Log l fmt [JNum i] # es) = i # tick_values es"
| "tick_values (ev # es) = tick_values es"

text \<open>The seconds slept, and the commands handed to \<^verbatim>\<open>os.system\<close>.\<close>

fun slept :: "event list \<Rightarrow> nat" where
  "slept [] = 0"
| "slept (Sleep n # es) = n + slept es"
| "slept (ev # es) = slept es"

fun commands :: "event list \<Rightarrow> string list" where
  "commands [] = []"
| "commands (Os_system c # es) = c # commands es"
| "commands (ev # es) = commands es"


fun response_body :: "response \<Rightarrow> json" where
  "response_body (Response body code) = body"
| "response_body (Raised x) = JNull"

section \<open>Traces\<close>

lemma tick_values_append: "tick_values (xs @ ys) = tick_values xs @ tick_values ys"
  by (induction xs rule: tick_values.induct) simp_all

lemma slept_append: "slept (xs @ ys) = slept xs + slept ys"
  by (induction xs rule: slept.induct) simp_all

lemma commands_append: "commands (xs @ ys) = commands xs @ commands ys"
  by (induction xs rule: commands.induct) simp_all

text \<open>\<^verbatim>\<open>range(d, 0, -1)\<close> is \<open>d, d - 1, ..., 1\<close>, and empty when \<open>d \<le> 0\<close>.\<close>

lemma range_down_zero: "range_down d 0 = rev [1..d]"
proof (induction d "0::int" rule: range_down.induct)
  case (1 i)
  show ?case
  proof (cases "0 < i")
    case True
    then have "[1..i] = [1..i - 1] @ [i]"
      by (simp add: upto_rec2)
    with True 1 show ?thesis
      by (simp add: range_down.simps [of i 0])
  next
    case False
    then show ?thesis
      by (simp add: range_down.simps [of i 0])
  qed
qed

lemma countdown_steps:
  "tick_values (concat (map (\<lambda>i. [Log INFO fmt [JNum i], Sleep 1]) xs)) = xs \<and>
   slept (concat (map (\<lambda>i. [Log INFO fmt [JNum i], Sleep 1]) xs)) = length xs \<and>
   commands (concat (map (\<lambda>i. [Log INFO fmt [JNum i], Sleep 1]) xs)) = []"
  by (induction xs) simp_all

lemma countdown_reads:
  "tick_values (countdown fmt d) = rev [1..d] \<and>
   slept (countdown fmt d) = nat d \<and>
   commands (countdown fmt d) = []"
  unfolding countdown_def range_down_zero
  using countdown_steps [of fmt "rev [1..d]"] by simp

lemma try_system_reads:
  "tick_values (fst (try_system e a c f)) = [] \<and>
   commands (fst (try_system e a c f)) = [c] \<and>
   slept (fst (try_system e a c f)) = 0"
  by (simp add: try_system_def split: sum.splits)

lemma command_reads:
  "tick_values (fst (shutdown_command e)) = [] \<and>
   tick_values (fst (restart_command e)) = [] \<and>
   slept (fst (shutdown_command e)) = 0 \<and>
   slept (fst (restart_command e)) = 0"
  by (simp add: shutdown_command_def restart_command_def try_system_reads unsupported_def)

section \<open>Authentication\<close>

lemma py_eq_str_iff: "py_eq_str k s \<longleftrightarrow> k = JStr s"
  by (cases k) auto

lemma require_api_key_cases:
  "require_api_key cfg f r s =
     (case presented_api_key r of
        Inl x \<Rightarrow> (Raised x, s)
      | Inr k \<Rightarrow>
          if k = JStr (api_key cfg) then f r s
          else (Response unauthorized_body 401,
                log (Log WARNING ''Unauthorized access attempt from {request.remote_addr}''
                       [JStr (remote_addr r)]) s))"
  by (simp add: require_api_key_def authorized_def py_eq_str_iff split: sum.splits)

lemma route_authorized:
  assumes "presented_api_key r = Inr (JStr (api_key cfg))"
  shows "require_api_key cfg f r s = f r s"
  using assms by (simp add: require_api_key_cases)

lemma header_request_presents:
  "presented_api_key (header_request (c # cs)) = Inr (JStr (c # cs))"
  by (simp add: presented_api_key_def header_request_def)



text \<open>
  C7. Among the header, the query parameter and the body field, in this order, the
  first non-empty value is the value of \<^verbatim>\<open>api_key\<close> when the decorator compares:
  an empty or absent earlier source falls through to the next, and the request is let
  through exactly when that value is the secret.
\<close>

theorem first_nonempty_source_is_compared:
  assumes "first_nonempty (credential_sources r) = Some v"
  shows "presented_api_key r = Inr v \<and>
         require_api_key cfg f r s =
           (if v = JStr (api_key cfg) then f r s
            else (Response unauthorized_body 401,
                  log (Log WARNING ''Unauthorized access attempt from {request.remote_addr}''
                         [JStr (remote_addr r)]) s))"
proof -
  have p: "presented_api_key r = Inr v"
    using assms
    by (auto simp: credential_sources_def presented_api_key_def body_field_def get_json_def
        Let_def split: if_splits option.splits json.splits)
  then show ?thesis
    by (simp add: require_api_key_cases)
qed

theorem first_nonempty_source_witness:
  "first_nonempty (credential_sources (body_request ''change-this-secret-key'')) =
     Some (JStr ''change-this-secret-key'') \<and>
   presented_api_key (body_request ''change-this-secret-key'') =
     Inr (JStr ''change-this-secret-key'') \<and>
   require_api_key CONFIG (get_config CONFIG) (body_request ''change-this-secret-key'') idle =
     get_config CONFIG (body_request ''change-this-secret-key'') idle"
proof -
  have h: "first_nonempty (credential_sources (body_request ''change-this-secret-key'')) =
     Some (JStr ''change-this-secret-key'')"
    by (simp add: credential_sources_def body_request_def body_field_def)
  show ?thesis
    using h first_nonempty_source_is_compared [OF h, of CONFIG "get_config CONFIG" idle]
    by (simp add: CONFIG_def)
qed

text \<open>
  A request that does not present the secret never reaches the view function: the
  answer does not depend on it, no thread is started and no command is run.
\<close>

lemma refused_request_starts_nothing:
  assumes "presented_api_key r \<noteq> Inr (JStr (api_key cfg))"
  shows "require_api_key cfg f r s = require_api_key cfg g r s \<and>
         threads (snd (require_api_key cfg f r s)) = threads s \<and>
         commands (trace (snd (require_api_key cfg f r s))) = commands (trace s) \<and>
         status_code (fst (require_api_key cfg f r s)) \<in> {400, 401, 500}"
proof (cases "presented_api_key r")
  case (Inl x)
  then show ?thesis
    by (cases x) (simp_all add: require_api_key_cases)
next
  case (Inr k)
  with assms have "k \<noteq> JStr (api_key cfg)"
    by simp
  with Inr show ?thesis
    by (simp add: require_api_key_cases log_def commands_append)
qed

lemma wrong_key_is_answered_401:
  assumes "presented_api_key r = Inr k" and "k \<noteq> JStr (api_key cfg)"
  shows "fst (require_api_key cfg f r s) = Response unauthorized_body 401"
  using assms by (simp add: require_api_key_cases)

text \<open>
  C2. A submit request that presents no credential at all, and whose JSON body is the
  array \<^verbatim>\<open>[]\<close>, is not answered with 401: \<^verbatim>\<open>[].get\<close> raises
  \<^verbatim>\<open>AttributeError\<close> inside the decorator, before the comparison, and the
  answer is 500.
\<close>

theorem non_object_body_is_answered_500:
  "first_nonempty (credential_sources (json_request (JArr []))) = None \<and>
   status_code (fst (route_restart CONFIG linux_ok (json_request (JArr [])) idle)) = 500 \<and>
   status_code (fst (route_shutdown CONFIG linux_ok (json_request (JArr [])) idle)) = 500"
  by (simp add: route_restart_def route_shutdown_def require_api_key_def presented_api_key_def
      json_request_def get_json_def credential_sources_def body_field_def)

section \<open>The platform executor\<close>

text \<open>
  C4. On a platform other than \<^verbatim>\<open>win32\<close>, \<^verbatim>\<open>linux\<close> and \<^verbatim>\<open>darwin\<close>, both
  \<^verbatim>\<open>shutdown_system\<close> and \<^verbatim>\<open>restart_system\<close> return \<^verbatim>\<open>False\<close>, their last
  effect is the error line that names the unsupported platform, and they hand no
  command to \<^verbatim>\<open>os.system\<close>.
\<close>

theorem unsupported_platform_fails_without_command:
  assumes "platform e \<notin> {''win32'', ''linux'', ''darwin''}"
  shows "snd (shutdown_system cfg e) = False \<and> snd (restart_system cfg e) = False \<and>
         commands (fst (shutdown_system cfg e)) = [] \<and>
         commands (fst (restart_system cfg e)) = [] \<and>
         last (fst (shutdown_system cfg e)) =
           Log ERROR ''Unsupported platform: {sys.platform}'' [JStr (platform e)] \<and>
         last (fst (restart_system cfg e)) =
           Log ERROR ''Unsupported platform: {sys.platform}'' [JStr (platform e)]"
proof -
  from assms have c: "shutdown_command e = unsupported e" "restart_command e = unsupported e"
    by (simp_all add: shutdown_command_def restart_command_def)
  show ?thesis
    by (simp add: shutdown_system_def restart_system_def c unsupported_def commands_append
        countdown_reads)
qed

theorem unsupported_platform_witness:
  "platform freebsd \<notin> {''win32'', ''linux'', ''darwin''} \<and>
   snd (shutdown_system CONFIG freebsd) = False \<and>
   snd (restart_system CONFIG freebsd) = False \<and>
   commands (fst (shutdown_system CONFIG freebsd)) = [] \<and>
   commands (fst (restart_system CONFIG freebsd)) = []"
proof -
  have h: "platform freebsd \<notin> {''win32'', ''linux'', ''darwin''}"
    by (simp add: freebsd_def linux_ok_def)
  show ?thesis
    using h unsupported_platform_fails_without_command [OF h, of CONFIG] by simp
qed

text \<open>
  On a supported platform the value returned says only whether \<^verbatim>\<open>os.system\<close>
  raised: whatever exit status it returns, the result is \<^verbatim>\<open>True\<close>.
\<close>

lemma try_system_result:
  "snd (try_system e a c f) =
     (case os_system e c of Inr exit_status \<Rightarrow> True | Inl x \<Rightarrow> False)"
  by (simp add: try_system_def split: sum.splits)

lemma exit_status_is_dropped:
  assumes "platform e \<in> {''win32'', ''linux'', ''darwin''}"
    and "os_system e = (\<lambda>c. Inr (exit_status c))"
  shows "snd (shutdown_system cfg e) = True \<and> snd (restart_system cfg e) = True"
  using assms
  by (auto simp: shutdown_system_def restart_system_def shutdown_command_def
      restart_command_def try_system_result)

text \<open>
  C5. On Linux, with a shell that cannot launch the command (\<^verbatim>\<open>os.system\<close>
  returns the wait status 32512, exit code 127), both \<^verbatim>\<open>shutdown_system\<close> and
  \<^verbatim>\<open>restart_system\<close> return \<^verbatim>\<open>True\<close>.
\<close>

theorem failed_command_is_reported_as_success:
  "os_system linux_no_sudo ''sudo shutdown -h now'' = Inr 32512 \<and>
   os_system linux_no_sudo ''sudo shutdown -r now'' = Inr 32512 \<and>
   snd (shutdown_system CONFIG linux_no_sudo) = True \<and>
   snd (restart_system CONFIG linux_no_sudo) = True"
  by (simp add: shutdown_system_def restart_system_def shutdown_command_def
      restart_command_def try_system_def linux_no_sudo_def linux_ok_def)

text \<open>
  C6, as the claim states it, fails: with a delay of 2 the countdown lines report 2 and
  1 and there is no line for 0; with a delay of 0 there is no countdown line at all.
\<close>

theorem ticks_stop_at_one:
  "tick_values (fst (shutdown_system (CONFIG\<lparr>shutdown_delay := 2\<rparr>) linux_ok)) = [2, 1] \<and>
   tick_values (fst (shutdown_system (CONFIG\<lparr>shutdown_delay := 2\<rparr>) linux_ok)) \<noteq> [2, 1, 0] \<and>
   tick_values (fst (restart_system (CONFIG\<lparr>shutdown_delay := 2\<rparr>) linux_ok)) = [2, 1] \<and>
   tick_values (fst (shutdown_system (CONFIG\<lparr>shutdown_delay := 0\<rparr>) linux_ok)) = []"
  by (simp add: shutdown_system_def restart_system_def tick_values_append countdown_reads
      command_reads upto.simps)

text \<open>
  C6, amended. For a delay \<open>d\<close> the countdown lines report \<open>d, d - 1, ..., 1\<close>:
  strictly decreasing, \<open>d\<close> of them, none for 0 (and none at all when \<open>d\<close> is 0).
  Everything before the platform's command is these lines, one second of sleep after
  each, and no \<^verbatim>\<open>os.system\<close> call: the command comes after the last of them.
\<close>

theorem countdown_ticks_down_to_one:
  "fst (shutdown_system cfg e) =
     Log INFO ''Initiating system shutdown on {sys.platform}...'' [JStr (platform e)]
       # concat (map (\<lambda>i. [Log INFO ''Shutting down in {i} seconds...'' [JNum i], Sleep 1])
           (rev [1..shutdown_delay cfg]))
       @ Log INFO ''Executing shutdown command...'' [] # fst (shutdown_command e) \<and>
   fst (restart_system cfg e) =
     Log INFO ''Initiating system restart on {sys.platform}...'' [JStr (platform e)]
       # concat (map (\<lambda>i. [Log INFO ''Restarting in {i} seconds...'' [JNum i], Sleep 1])
           (rev [1..shutdown_delay cfg]))
       @ Log INFO ''Executing restart command...'' [] # fst (restart_command e) \<and>
   tick_values (fst (shutdown_system cfg e)) = rev [1..shutdown_delay cfg] \<and>
   tick_values (fst (restart_system cfg e)) = rev [1..shutdown_delay cfg] \<and>
   sorted_wrt (>) (tick_values (fst (shutdown_system cfg e))) \<and>
   sorted_wrt (>) (tick_values (fst (restart_system cfg e))) \<and>
   length (tick_values (fst (shutdown_system cfg e))) = nat (shutdown_delay cfg) \<and>
   length (tick_values (fst (restart_system cfg e))) = nat (shutdown_delay cfg) \<and>
   0 \<notin> set (tick_values (fst (shutdown_system cfg e))) \<and>
   0 \<notin> set (tick_values (fst (restart_system cfg e))) \<and>
   (\<exists>before. fst (shutdown_system cfg e) = before @ fst (shutdown_command e) \<and>
      tick_values before = rev [1..shutdown_delay cfg] \<and>
      slept before = nat (shutdown_delay cfg) \<and> commands before = []) \<and>
   (\<exists>before. fst (restart_system cfg e) = before @ fst (restart_command e) \<and>
      tick_values before = rev [1..shutdown_delay cfg] \<and>
      slept before = nat (shutdown_delay cfg) \<and> commands before = [])"
proof -
  let ?d = "shutdown_delay cfg"
  have t: "tick_values (fst (shutdown_system cfg e)) = rev [1..?d]"
    "tick_values (fst (restart_system cfg e)) = rev [1..?d]"
    by (simp_all add: shutdown_system_def restart_system_def tick_values_append
        countdown_reads command_reads)
  have s: "sorted_wrt (>) (rev [1..?d])"
    by (simp add: sorted_wrt_rev)
  have n: "length (rev [1..?d]) = nat ?d" "0 \<notin> set (rev [1..?d])"
    by simp_all
  have b1: "\<exists>before. fst (shutdown_system cfg e) = before @ fst (shutdown_command e) \<and>
      tick_values before = rev [1..?d] \<and> slept before = nat ?d \<and> commands before = []"
    by (rule exI [of _ "Log INFO ''Initiating system shutdown on {sys.platform}...''
            [JStr (platform e)]
          # countdown ''Shutting down in {i} seconds...'' ?d
          @ [Log INFO ''Executing shutdown command...'' []]"])
      (simp add: shutdown_system_def tick_values_append slept_append commands_append
        countdown_reads)
  have b2: "\<exists>before. fst (restart_system cfg e) = before @ fst (restart_command e) \<and>
      tick_values before = rev [1..?d] \<and> slept before = nat ?d \<and> commands before = []"
    by (rule exI [of _ "Log INFO ''Initiating system restart on {sys.platform}...''
            [JStr (platform e)]
          # countdown ''Restarting in {i} seconds...'' ?d
          @ [Log INFO ''Executing restart command...'' []]"])
      (simp add: restart_system_def tick_values_append slept_append commands_append
        countdown_reads)
  have u: "fst (shutdown_system cfg e) =
     Log INFO ''Initiating system shutdown on {sys.platform}...'' [JStr (platform e)]
       # concat (map (\<lambda>i. [Log INFO ''Shutting down in {i} seconds...'' [JNum i], Sleep 1])
           (rev [1..?d]))
       @ Log INFO ''Executing shutdown command...'' [] # fst (shutdown_command e)"
    "fst (restart_system cfg e) =
     Log INFO ''Initiating system restart on {sys.platform}...'' [JStr (platform e)]
       # concat (map (\<lambda>i. [Log INFO ''Restarting in {i} seconds...'' [JNum i], Sleep 1])
           (rev [1..?d]))
       @ Log INFO ''Executing restart command...'' [] # fst (restart_command e)"
    by (simp_all add: shutdown_system_def restart_system_def countdown_def range_down_zero)
  from t s n b1 b2 have rest:
    "tick_values (fst (shutdown_system cfg e)) = rev [1..?d] \<and>
     tick_values (fst (restart_system cfg e)) = rev [1..?d] \<and>
     sorted_wrt (>) (tick_values (fst (shutdown_system cfg e))) \<and>
     sorted_wrt (>) (tick_values (fst (restart_system cfg e))) \<and>
     length (tick_values (fst (shutdown_system cfg e))) = nat ?d \<and>
     length (tick_values (fst (restart_system cfg e))) = nat ?d \<and>
     0 \<notin> set (tick_values (fst (shutdown_system cfg e))) \<and>
     0 \<notin> set (tick_values (fst (restart_system cfg e))) \<and>
     (\<exists>before. fst (shutdown_system cfg e) = before @ fst (shutdown_command e) \<and>
        tick_values before = rev [1..?d] \<and> slept before = nat ?d \<and> commands before = []) \<and>
     (\<exists>before. fst (restart_system cfg e) = before @ fst (restart_command e) \<and>
        tick_values before = rev [1..?d] \<and> slept before = nat ?d \<and> commands before = [])"
    by simp
  show ?thesis
    by (rule conjI [OF u(1) conjI [OF u(2) rest]])
qed

theorem countdown_ticks_witness:
  "tick_values (fst (shutdown_system (CONFIG\<lparr>shutdown_delay := 3\<rparr>) linux_ok)) = [3, 2, 1] \<and>
   tick_values (fst (restart_system (CONFIG\<lparr>shutdown_delay := 3\<rparr>) linux_ok)) = [3, 2, 1] \<and>
   tick_values (fst (shutdown_system (CONFIG\<lparr>shutdown_delay := 0\<rparr>) linux_ok)) = []"
proof -
  have a: "tick_values (fst (shutdown_system (CONFIG\<lparr>shutdown_delay := 3\<rparr>) linux_ok)) =
      rev [1..shutdown_delay (CONFIG\<lparr>shutdown_delay := 3\<rparr>)]"
    using countdown_ticks_down_to_one [of "CONFIG\<lparr>shutdown_delay := 3\<rparr>" linux_ok]
    by (elim conjE)
  have b: "tick_values (fst (restart_system (CONFIG\<lparr>shutdown_delay := 3\<rparr>) linux_ok)) =
      rev [1..shutdown_delay (CONFIG\<lparr>shutdown_delay := 3\<rparr>)]"
    using countdown_ticks_down_to_one [of "CONFIG\<lparr>shutdown_delay := 3\<rparr>" linux_ok]
    by (elim conjE)
  have c: "tick_values (fst (shutdown_system (CONFIG\<lparr>shutdown_delay := 0\<rparr>) linux_ok)) =
      rev [1..shutdown_delay (CONFIG\<lparr>shutdown_delay := 0\<rparr>)]"
    using countdown_ticks_down_to_one [of "CONFIG\<lparr>shutdown_delay := 0\<rparr>" linux_ok]
    by (elim conjE)
  from a b c show ?thesis
    by (simp add: upto.simps)
qed

section \<open>The gateway\<close>

lemma start_and_answer_started:
  assumes "thread_start e = None"
  shows "start_and_answer t received message failed cfg e r s =
           (Response (initiated_body message cfg e) 200,
            s\<lparr>threads := threads s @ [t],
              trace := trace s @ [Log INFO received [JStr (remote_addr r)]]\<rparr>)"
  using assms by (simp add: start_and_answer_def log_def)

text \<open>
  C3, as the claim states it, fails: after an authenticated shutdown request has
  started its countdown thread, an authenticated restart request is answered 200 as
  well, and two countdown threads are active.
\<close>

theorem second_submit_is_accepted:
  "status_code (fst (route_shutdown CONFIG linux_ok (header_request ''change-this-secret-key'')
       idle)) = 200 \<and>
   threads (snd (route_shutdown CONFIG linux_ok (header_request ''change-this-secret-key'')
       idle)) = [Shutdown_system] \<and>
   status_code (fst (route_restart CONFIG linux_ok (header_request ''change-this-secret-key'')
       (snd (route_shutdown CONFIG linux_ok (header_request ''change-this-secret-key'')
          idle)))) = 200 \<and>
   threads (snd (route_restart CONFIG linux_ok (header_request ''change-this-secret-key'')
       (snd (route_shutdown CONFIG linux_ok (header_request ''change-this-secret-key'')
          idle)))) = [Shutdown_system, Restart_system]"
proof -
  have p: "presented_api_key (header_request ''change-this-secret-key'') =
      Inr (JStr (api_key CONFIG))"
    by (simp add: header_request_presents CONFIG_def)
  have t: "thread_start linux_ok = None"
    by (simp add: linux_ok_def)
  show ?thesis
    by (simp add: route_shutdown_def route_restart_def route_authorized [OF p] shutdown_def
        restart_def start_and_answer_started [OF t] idle_def)
qed

text \<open>
  C3, amended. There is no guard on the number of countdowns: every authenticated
  submit whose thread starts is answered 200 with the configured delay and adds one
  countdown thread to those already active, which stay as they are.
\<close>

theorem every_authenticated_submit_starts_a_thread:
  assumes "presented_api_key r = Inr (JStr (api_key cfg))" and "thread_start e = None"
  shows "status_code (fst (route_shutdown cfg e r s)) = 200 \<and>
         status_code (fst (route_restart cfg e r s)) = 200 \<and>
         py_get (response_body (fst (route_shutdown cfg e r s))) ''delay'' =
           Inr (JNum (shutdown_delay cfg)) \<and>
         py_get (response_body (fst (route_restart cfg e r s))) ''delay'' =
           Inr (JNum (shutdown_delay cfg)) \<and>
         threads (snd (route_shutdown cfg e r s)) = threads s @ [Shutdown_system] \<and>
         threads (snd (route_restart cfg e r s)) = threads s @ [Restart_system]"
  by (simp add: route_shutdown_def route_restart_def route_authorized [OF assms(1)] shutdown_def
      restart_def start_and_answer_started [OF assms(2)] initiated_body_def)

theorem every_authenticated_submit_witness:
  "presented_api_key (header_request ''change-this-secret-key'') = Inr (JStr (api_key CONFIG)) \<and>
   thread_start linux_ok = None \<and>
   status_code (fst (route_restart CONFIG linux_ok (header_request ''change-this-secret-key'')
     (idle\<lparr>threads := [Shutdown_system, Shutdown_system]\<rparr>))) = 200 \<and>
   threads (snd (route_restart CONFIG linux_ok (header_request ''change-this-secret-key'')
     (idle\<lparr>threads := [Shutdown_system, Shutdown_system]\<rparr>))) =
     [Shutdown_system, Shutdown_system, Restart_system]"
proof -
  have p: "presented_api_key (header_request ''change-this-secret-key'') =
      Inr (JStr (api_key CONFIG))"
    by (simp add: header_request_presents CONFIG_def)
  have t: "thread_start linux_ok = None"
    by (simp add: linux_ok_def)
  show ?thesis
    using p t every_authenticated_submit_starts_a_thread [OF p t,
        of "idle\<lparr>threads := [Shutdown_system, Shutdown_system]\<rparr>"]
    by (simp add: idle_def)
qed

text \<open>
  The answer of an authenticated submit whose thread starts: 200 with the success
  status, the message, the device name, the configured delay and the timestamp. It is
  the same on every platform and whatever \<^verbatim>\<open>os.system\<close> will do.
\<close>

lemma accepted_answer_content:
  assumes "presented_api_key r = Inr (JStr (api_key cfg))" and "thread_start e = None"
  shows "fst (route_shutdown cfg e r s) =
           Response (JObj [(''status'', JStr ''success''),
                           (''message'', JStr ''Shutdown initiated''),
                           (''device'', JStr (device_name cfg)),
                           (''delay'', JNum (shutdown_delay cfg)),
                           (''timestamp'', JStr (now e))]) 200 \<and>
         fst (route_restart cfg e r s) =
           Response (JObj [(''status'', JStr ''success''),
                           (''message'', JStr ''Restart initiated''),
                           (''device'', JStr (device_name cfg)),
                           (''delay'', JNum (shutdown_delay cfg)),
                           (''timestamp'', JStr (now e))]) 200 \<and>
         fst (route_shutdown cfg (e\<lparr>platform := p, os_system := sys\<rparr>) r s) =
           fst (route_shutdown cfg e r s) \<and>
         fst (route_restart cfg (e\<lparr>platform := p, os_system := sys\<rparr>) r s) =
           fst (route_restart cfg e r s)"
proof -
  have t: "thread_start (e\<lparr>platform := p, os_system := sys\<rparr>) = None"
    using assms(2) by simp
  show ?thesis
    by (simp add: route_shutdown_def route_restart_def route_authorized [OF assms(1)]
        shutdown_def restart_def start_and_answer_started [OF assms(2)]
        start_and_answer_started [OF t] initiated_body_def)
qed

text \<open>Whatever the scheduler picks, every step of both sides happens.\<close>

lemma set_interleave: "set (interleave sched xs ys) = set xs \<union> set ys"
  by (induction sched xs ys rule: interleave.induct) auto

text \<open>
  The threads an authenticated submit starts, and so what runs beside its answer.
\<close>

lemma accepted_timeline:
  assumes "presented_api_key r = Inr (JStr (api_key cfg))" and "thread_start e = None"
  shows "timeline sched cfg e s (route_shutdown cfg e r s) =
           interleave sched [Answered (fst (route_shutdown cfg e r s))]
             (map In_thread (fst (shutdown_system cfg e))) \<and>
         timeline sched cfg e s (route_restart cfg e r s) =
           interleave sched [Answered (fst (route_restart cfg e r s))]
             (map In_thread (fst (restart_system cfg e)))"
  by (simp add: timeline_def route_shutdown_def route_restart_def
      route_authorized [OF assms(1)] shutdown_def restart_def
      start_and_answer_started [OF assms(2)])

text \<open>
  C9. With a delay of 0 the countdown thread does not sleep. When the scheduler lets
  the thread run first, it hands the command to \<^verbatim>\<open>os.system\<close> before the request
  is answered; when the scheduler lets the request run first, the answer comes first.
  The answer is the same 200 in both.
\<close>

theorem command_can_precede_the_answer:
  "timeline [False, False, False, False] (CONFIG\<lparr>shutdown_delay := 0\<rparr>) linux_ok idle
     (route_shutdown (CONFIG\<lparr>shutdown_delay := 0\<rparr>) linux_ok
        (header_request ''change-this-secret-key'') idle) =
     [In_thread (Log INFO ''Initiating system shutdown on {sys.platform}...'' [JStr ''linux'']),
      In_thread (Log INFO ''Executing shutdown command...'' []),
      In_thread (Log INFO ''Executing Linux shutdown'' []),
      In_thread (Os_system ''sudo shutdown -h now''),
      Answered (Response (JObj [(''status'', JStr ''success''),
                                (''message'', JStr ''Shutdown initiated''),
                                (''device'', JStr ''Unknown''),
                                (''delay'', JNum 0),
                                (''timestamp'', JStr ''2024-01-01T00:00:00'')]) 200)] \<and>
   timeline [True] (CONFIG\<lparr>shutdown_delay := 0\<rparr>) linux_ok idle
     (route_shutdown (CONFIG\<lparr>shutdown_delay := 0\<rparr>) linux_ok
        (header_request ''change-this-secret-key'') idle) =
     [Answered (Response (JObj [(''status'', JStr ''success''),
                                (''message'', JStr ''Shutdown initiated''),
                                (''device'', JStr ''Unknown''),
                                (''delay'', JNum 0),
                                (''timestamp'', JStr ''2024-01-01T00:00:00'')]) 200),
      In_thread (Log INFO ''Initiating system shutdown on {sys.platform}...'' [JStr ''linux'']),
      In_thread (Log INFO ''Executing shutdown command...'' []),
      In_thread (Log INFO ''Executing Linux shutdown'' []),
      In_thread (Os_system ''sudo shutdown -h now'')]"
proof -
  have p: "presented_api_key (header_request ''change-this-secret-key'') =
      Inr (JStr (api_key (CONFIG\<lparr>shutdown_delay := 0\<rparr>)))"
    by (simp add: header_request_presents CONFIG_def)
  have t: "thread_start linux_ok = None"
    by (simp add: linux_ok_def)
  have a: "fst (route_shutdown (CONFIG\<lparr>shutdown_delay := 0\<rparr>) linux_ok
      (header_request ''change-this-secret-key'') idle) =
      Response (JObj [(''status'', JStr ''success''),
                      (''message'', JStr ''Shutdown initiated''),
                      (''device'', JStr ''Unknown''),
                      (''delay'', JNum 0),
                      (''timestamp'', JStr ''2024-01-01T00:00:00'')]) 200"
    using accepted_answer_content [OF p t, of idle] by (simp add: CONFIG_def linux_ok_def)
  have c: "fst (shutdown_system (CONFIG\<lparr>shutdown_delay := 0\<rparr>) linux_ok) =
      [Log INFO ''Initiating system shutdown on {sys.platform}...'' [JStr ''linux''],
       Log INFO ''Executing shutdown command...'' [],
       Log INFO ''Executing Linux shutdown'' [],
       Os_system ''sudo shutdown -h now'']"
    by (simp add: shutdown_system_def countdown_def range_down.simps [of 0 0]
        shutdown_command_def try_system_def linux_ok_def)
  show ?thesis
    using accepted_timeline [OF p t]
    by (simp add: a c)
qed




section \<open>Startup\<close>

text \<open>
  C10. An option of the command line whose value is falsy is dropped: with
  \<^verbatim>\<open>--delay 0\<close> or \<^verbatim>\<open>--port 0\<close> the server starts with the configuration it has
  without the option, while every other number given is taken. A delay of 0 is
  reached through the configuration file.
\<close>

theorem falsy_override_is_ignored:
  "shutdown_delay (main_config cfg file (a\<lparr>args_delay := Some 0\<rparr>)) =
     shutdown_delay (load_config file cfg) \<and>
   port (main_config cfg file (a\<lparr>args_port := Some 0\<rparr>)) = port (load_config file cfg) \<and>
   main_config cfg file (a\<lparr>args_delay := Some 0\<rparr>) =
     main_config cfg file (a\<lparr>args_delay := None\<rparr>) \<and>
   main_config cfg file (a\<lparr>args_port := Some 0\<rparr>) =
     main_config cfg file (a\<lparr>args_port := None\<rparr>) \<and>
   main_config cfg file (a\<lparr>args_api_key := Some []\<rparr>) =
     main_config cfg file (a\<lparr>args_api_key := None\<rparr>) \<and>
   main_config cfg file (a\<lparr>args_device_name := Some []\<rparr>) =
     main_config cfg file (a\<lparr>args_device_name := None\<rparr>) \<and>
   (n \<noteq> 0 \<longrightarrow> shutdown_delay (main_config cfg file (a\<lparr>args_delay := Some n\<rparr>)) = n) \<and>
   (n \<noteq> 0 \<longrightarrow> port (main_config cfg file (a\<lparr>args_port := Some n\<rparr>)) = n) \<and>
   shutdown_delay (main_config cfg (Loaded (l\<lparr>file_shutdown_delay := Some 0\<rparr>))
     (a\<lparr>args_delay := Some 0\<rparr>)) = 0"
  by (simp add: main_config_def override_def update_config_def Let_def)

theorem falsy_override_witness:
  "shutdown_delay (main_config CONFIG Missing (no_args\<lparr>args_delay := Some 0\<rparr>)) = 5 \<and>
   port (main_config CONFIG Missing (no_args\<lparr>args_port := Some 0\<rparr>)) = 5000 \<and>
   shutdown_delay (main_config CONFIG Missing (no_args\<lparr>args_delay := Some 1\<rparr>)) = 1 \<and>
   shutdown_delay (main_config CONFIG Missing (no_args\<lparr>args_delay := Some (- 3)\<rparr>)) = - 3"
  using falsy_override_is_ignored [of CONFIG Missing no_args 1]
    falsy_override_is_ignored [of CONFIG Missing no_args "- 3"]
  by (simp add: CONFIG_def)

end
